theory Spec2Isabelle
  imports Main
begin

section \<open>The rate-availability calendar hook\<close>

text \<open>
  The repository has one source file, \<^verbatim>\<open>src/app/(hooks)/useRoomRateAvailabilityCalendar.ts\<close>:
  a React hook that hands five options (\<^verbatim>\<open>queryKey\<close>, \<^verbatim>\<open>queryFn\<close>,
  \<^verbatim>\<open>initialPageParam\<close>, \<^verbatim>\<open>getNextPageParam\<close>, \<^verbatim>\<open>staleTime\<close>) to
  \<^verbatim>\<open>useInfiniteQuery\<close> of TanStack Query. The hook's own code is the page fetcher
  \<^verbatim>\<open>fetchData\<close> and the cursor function \<^verbatim>\<open>getNextPageParam\<close>; both are embedded below
  as they are written. The helper \<^verbatim>\<open>Fetch\<close> (\<^verbatim>\<open>@/utils/Fetch\<close>) is not among the
  sources and is a parameter of the model.
\<close>

subsection \<open>JavaScript values the hook handles\<close>

text \<open>
  The cursor and the property id are of TypeScript's type \<^verbatim>\<open>number\<close>. The model keeps the
  numbers a page cursor takes: the integers (\<open>Num n\<close>; \<^verbatim>\<open>-0\<close> is identified with \<^verbatim>\<open>0\<close>,
  both are falsy and both print as \<^verbatim>\<open>"0"\<close>) and \<^verbatim>\<open>NaN\<close>. Fractions and the infinities
  are left out; they are truthy like every non-zero integer.
\<close>

datatype js_number = Num int | NaN

text \<open>JavaScript's \<^verbatim>\<open>ToBoolean\<close> on a number: \<^verbatim>\<open>0\<close> and \<^verbatim>\<open>NaN\<close> are falsy.\<close>

fun truthy :: "js_number \<Rightarrow> bool" where
  "truthy (Num n) = (n \<noteq> 0)"
| "truthy NaN = False"

subsection \<open>The interfaces of the source file\<close>

text \<open>
  A \<^verbatim>\<open>Dayjs\<close> value wraps an instant, kept here as milliseconds since the epoch. Field
  names that several interfaces share (\<^verbatim>\<open>id\<close>, \<^verbatim>\<open>name\<close>, \<^verbatim>\<open>date\<close>) carry a prefix
  of their interface.
\<close>

type_synonym Dayjs = int

record IRoomInventory =
  inventory_id :: string
  inventory_date :: Dayjs
  available :: js_number
  status :: bool
  booked :: js_number

record IRoomRatePlans =
  rate_plan_id :: js_number
  rate_plan_name :: string

record IRateCalendar =
  rate_id :: string
  rate_date :: Dayjs
  rate :: js_number
  min_length_of_stay :: js_number
  reservation_deadline :: js_number

record IRatePlanCalendar = IRoomRatePlans +
  calendar :: "IRateCalendar list"

record IRoomCategory =
  category_id :: string
  category_name :: string
  occupancy :: js_number

record IRoomCategoryCalender = IRoomCategory +
  inventory_calendar :: "IRoomInventory list"
  rate_plans :: "IRatePlanCalendar list"

record IParams =
  property_id :: js_number
  start_date :: string
  end_date :: string

text \<open>\<^verbatim>\<open>nextCursor?: number\<close>: \<open>None\<close> is the absent property (\<^verbatim>\<open>undefined\<close>).\<close>

record IResponse =
  room_categories :: "IRoomCategoryCalender list"
  nextCursor :: "js_number option"

text \<open>
  What a call of \<^verbatim>\<open>Fetch<IResponse>\<close> resolves to: the hook reads only its \<^verbatim>\<open>data\<close>
  property (\<^verbatim>\<open>lastpage.data.nextCursor\<close>).
\<close>

record fetched =
  data :: IResponse

subsection \<open>getNextPageParam\<close>

text \<open>
  \<^verbatim>\<open>
  getNextPageParam: (lastpage) => {
    if(lastpage.data.nextCursor){ return lastpage.data.nextCursor }
    else{ undefined }
  }
  \<close>
  The \<^verbatim>\<open>else\<close> branch evaluates \<^verbatim>\<open>undefined\<close> and falls off the end of the function,
  which returns \<^verbatim>\<open>undefined\<close>: \<open>None\<close>. An absent \<^verbatim>\<open>nextCursor\<close> is falsy.
\<close>

definition getNextPageParam :: "fetched \<Rightarrow> js_number option" where
  "getNextPageParam lastpage =
     (case nextCursor (data lastpage) of
        None \<Rightarrow> None
      | Some c \<Rightarrow> if truthy c then Some c else None)"

subsection \<open>Strings the request is built from\<close>

text \<open>
  Strings are byte strings (the UTF-8 encoding of the JavaScript string).
  \<^verbatim>\<open>Number.prototype.toString\<close> and the template literal print an integer in decimal
  digits (for magnitudes below \<open>10\<^sup>2\<^sup>1\<close>, the range the model is meant for).
\<close>

definition digit_char :: "nat \<Rightarrow> char" where
  "digit_char d = ''0123456789'' ! d"

function decimal :: "nat \<Rightarrow> string" where
  "decimal n = (if n < 10 then [digit_char n] else decimal (n div 10) @ [digit_char (n mod 10)])"
  by pat_completeness auto
termination
  by (relation "measure (\<lambda>n. n)") auto

declare decimal.simps [simp del]

fun number_toString :: "js_number \<Rightarrow> string" where
  "number_toString (Num n) = (if n < 0 then ''-'' @ decimal (nat (- n)) else decimal (nat n))"
| "number_toString NaN = ''NaN''"

text \<open>
  \<^verbatim>\<open>URLSearchParams.prototype.toString\<close>: the \<^verbatim>\<open>application/x-www-form-urlencoded\<close>
  serializer. A byte is kept when it is an ASCII letter or digit or one of \<^verbatim>\<open>* - . _\<close>,
  a space becomes \<^verbatim>\<open>+\<close>, every other byte becomes \<^verbatim>\<open>%\<close> and two upper-case hex digits.
\<close>

definition hex_digit :: "nat \<Rightarrow> char" where
  "hex_digit d = ''0123456789ABCDEF'' ! d"

definition ascii_alpha :: "nat \<Rightarrow> bool" where
  "ascii_alpha n = ((65 \<le> n \<and> n \<le> 90) \<or> (97 \<le> n \<and> n \<le> 122))"

definition ascii_digit :: "nat \<Rightarrow> bool" where
  "ascii_digit n = (48 \<le> n \<and> n \<le> 57)"

definition urlencode_byte :: "char \<Rightarrow> string" where
  "urlencode_byte c =
     (let n = (of_char c :: nat) in
      if n = 32 then ''+''
      else if ascii_alpha n \<or> ascii_digit n \<or> n = 42 \<or> n = 45 \<or> n = 46 \<or> n = 95 then [c]
      else [CHR ''%'', hex_digit (n div 16), hex_digit (n mod 16)])"

definition urlencode :: "string \<Rightarrow> string" where
  "urlencode s = concat (map urlencode_byte s)"

fun URLSearchParams_toString :: "(string \<times> string) list \<Rightarrow> string" where
  "URLSearchParams_toString [] = []"
| "URLSearchParams_toString [(k, v)] = urlencode k @ ''='' @ urlencode v"
| "URLSearchParams_toString ((k, v) # kvs) =
     urlencode k @ ''='' @ urlencode v @ ''&'' @ URLSearchParams_toString kvs"

subsection \<open>The URL object\<close>

text \<open>
  \<^verbatim>\<open>new URL(s)\<close> with no base throws a \<^verbatim>\<open>TypeError\<close> when \<^verbatim>\<open>s\<close> does not parse as an
  absolute URL. The parser strips leading and trailing C0 controls and spaces and drops tabs
  and newlines (\<open>url_input\<close>), and then needs a scheme: an ASCII letter, then letters,
  digits, \<^verbatim>\<open>+ - .\<close>, then a colon. That much is modelled by \<open>has_scheme\<close>. What the parser
  checks after the scheme (host, port) is the platform's and is a parameter, \<open>URL_accepts\<close>
  of the runtime below.

  The parser splits the input at its first \<^verbatim>\<open>?\<close> or \<^verbatim>\<open>#\<close>: what comes before
  (\<open>url_base\<close>) holds scheme, authority and path, a \<^verbatim>\<open>?\<close> starts the query, which runs up
  to the first \<^verbatim>\<open>#\<close> (\<open>url_query\<close>), and a \<^verbatim>\<open>#\<close> starts the fragment. Of the URL object
  the model keeps two components. \<open>target\<close> is scheme, authority and path as the parser
  serialises them (lower-cased scheme and host, resolved dot segments, a path of \<^verbatim>\<open>/\<close> for
  an empty one, and so on); that serialisation is the platform's and is the second parameter,
  \<open>URL_serialize\<close> of the runtime. \<open>search\<close> is what the getter \<^verbatim>\<open>url.search\<close> returns,
  after construction the query as the input has it. The fragment is split off and not kept:
  it is no part of a request.
\<close>

definition scheme_char :: "char \<Rightarrow> bool" where
  "scheme_char c =
     (let n = (of_char c :: nat) in ascii_alpha n \<or> ascii_digit n \<or> n = 43 \<or> n = 45 \<or> n = 46)"

definition has_scheme :: "string \<Rightarrow> bool" where
  "has_scheme s =
     (case filter (\<lambda>c. (of_char c :: nat) \<noteq> 9 \<and> (of_char c :: nat) \<noteq> 10 \<and> (of_char c :: nat) \<noteq> 13)
             (dropWhile (\<lambda>c. (of_char c :: nat) \<le> 32) s) of
        [] \<Rightarrow> False
      | c # cs \<Rightarrow>
          ascii_alpha (of_char c) \<and>
          (case dropWhile scheme_char cs of [] \<Rightarrow> False | d # _ \<Rightarrow> d = CHR '':''))"

definition url_input :: "string \<Rightarrow> string" where
  "url_input s =
     filter (\<lambda>c. (of_char c :: nat) \<noteq> 9 \<and> (of_char c :: nat) \<noteq> 10 \<and> (of_char c :: nat) \<noteq> 13)
       (rev (dropWhile (\<lambda>c. (of_char c :: nat) \<le> 32)
          (rev (dropWhile (\<lambda>c. (of_char c :: nat) \<le> 32) s))))"

definition url_base :: "string \<Rightarrow> string" where
  "url_base s = takeWhile (\<lambda>c. c \<noteq> CHR ''?'' \<and> c \<noteq> CHR ''#'') s"

definition url_query :: "string \<Rightarrow> string" where
  "url_query s =
     (case dropWhile (\<lambda>c. c \<noteq> CHR ''?'' \<and> c \<noteq> CHR ''#'') s of
        [] \<Rightarrow> []
      | d # rest \<Rightarrow> if d = CHR ''?'' then takeWhile (\<lambda>c. c \<noteq> CHR ''#'') rest else [])"

record URL =
  target :: string
  search :: string

datatype 'e rejection = TypeError_Invalid_URL | Rejected 'e

definition new_URL ::
  "(string \<Rightarrow> bool) \<Rightarrow> (string \<Rightarrow> string) \<Rightarrow> string \<Rightarrow> 'e rejection + URL" where
  "new_URL accepts serialize s =
     (if has_scheme s \<and> accepts s then
        Inr \<lparr>target = serialize (url_base (url_input s)),
             search = (case url_query (url_input s) of [] \<Rightarrow> [] | c # q \<Rightarrow> CHR ''?'' # c # q)\<rparr>
      else Inl TypeError_Invalid_URL)"

text \<open>
  The setter \<^verbatim>\<open>url.search = s\<close> replaces the query the URL had: the empty string clears
  it; otherwise one leading \<^verbatim>\<open>?\<close> is dropped and the getter returns \<^verbatim>\<open>?\<close> and the query.
  The setter's own percent-encoding pass changes no byte that the serializer above produces.
\<close>

definition set_search :: "URL \<Rightarrow> string \<Rightarrow> URL" where
  "set_search u s =
     (case s of
        [] \<Rightarrow> u\<lparr>search := []\<rparr>
      | c # cs \<Rightarrow> u\<lparr>search := ''?'' @ (if c = CHR ''?'' then cs else s)\<rparr>)"

subsection \<open>The runtime: environment, URL parser and the Fetch helper\<close>

record request =
  http_method :: string
  url :: URL

text \<open>
  A request is the object given to \<^verbatim>\<open>Fetch\<close>; its property \<^verbatim>\<open>method\<close> is the field
  \<open>http_method\<close>.

  \<open>NEXT_PUBLIC_BACKEND_URL\<close> is \<^verbatim>\<open>process.env.NEXT_PUBLIC_BACKEND_URL\<close>, \<open>None\<close> when unset
  (a template literal prints it as \<^verbatim>\<open>undefined\<close>). \<open>URL_accepts\<close> and \<open>URL_serialize\<close>
  are the two parts of the platform's URL parser described above. \<open>Fetch_outcome\<close> stands for the
  helper \<^verbatim>\<open>Fetch\<close> of \<^verbatim>\<open>@/utils/Fetch\<close>, which is not among the sources: given the
  requests handed to it so far and the request at hand, it resolves (\<open>Inr\<close>) or rejects
  (\<open>Inl\<close>) with an error of its own type \<open>'e\<close>.
\<close>

record 'e runtime =
  NEXT_PUBLIC_BACKEND_URL :: "string option"
  URL_accepts :: "string \<Rightarrow> bool"
  URL_serialize :: "string \<Rightarrow> string"
  Fetch_outcome :: "request list \<Rightarrow> request \<Rightarrow> 'e + fetched"

definition template :: "string option \<Rightarrow> string" where
  "template v = (case v of None \<Rightarrow> ''undefined'' | Some s \<Rightarrow> s)"

text \<open>A call of \<^verbatim>\<open>Fetch\<close>: the request is appended to the log of calls made.\<close>

definition Fetch :: "'e runtime \<Rightarrow> request \<Rightarrow> request list \<Rightarrow> ('e + fetched) \<times> request list" where
  "Fetch rt req log = (Fetch_outcome rt log req, log @ [req])"

subsection \<open>fetchData\<close>

text \<open>
  \<^verbatim>\<open>
  const fetchData = async ({pageParam = 0}) => {
    const url = new URL(`${process.env.NEXT_PUBLIC_BACKEND_URL}/api/v1/property/${params.property_id}/rate-calendar/assessment`);
    url.search = new URLSearchParams({
      start_date: params.start_date, end_date: params.end_date,
      cursor: pageParam.toString(), fields: "id,name,rate",
    }).toString();
    return await Fetch<IResponse>({ method: "GET", url })
  }
  \<close>
  The template literal is \<open>endpoint\<close>, the object given to \<^verbatim>\<open>URLSearchParams\<close> is
  \<open>query_params\<close>. The argument is the \<^verbatim>\<open>pageParam\<close> property of the context object,
  \<open>None\<close> when it is \<^verbatim>\<open>undefined\<close> (the destructuring default \<^verbatim>\<open>0\<close> then applies). There is no
  \<^verbatim>\<open>try\<close>/\<^verbatim>\<open>catch\<close>: the \<^verbatim>\<open>TypeError\<close> of \<^verbatim>\<open>new URL\<close> and a rejection of
  \<^verbatim>\<open>Fetch\<close> reject the returned promise.
\<close>

definition endpoint :: "'e runtime \<Rightarrow> IParams \<Rightarrow> string" where
  "endpoint rt params =
     template (NEXT_PUBLIC_BACKEND_URL rt) @ ''/api/v1/property/'' @
     number_toString (property_id params) @ ''/rate-calendar/assessment''"

definition query_params :: "IParams \<Rightarrow> js_number \<Rightarrow> (string \<times> string) list" where
  "query_params params pageParam =
     [(''start_date'', start_date params),
      (''end_date'', end_date params),
      (''cursor'', number_toString pageParam),
      (''fields'', ''id,name,rate'')]"

definition fetchData ::
  "'e runtime \<Rightarrow> IParams \<Rightarrow> js_number option \<Rightarrow> request list
     \<Rightarrow> ('e rejection + fetched) \<times> request list" where
  "fetchData rt params pageParamArg log =
     (let pageParam = (case pageParamArg of None \<Rightarrow> Num 0 | Some p \<Rightarrow> p) in
      case new_URL (URL_accepts rt) (URL_serialize rt) (endpoint rt params) of
        Inl err \<Rightarrow> (Inl err, log)
      | Inr u \<Rightarrow>
          (case Fetch rt
                  \<lparr>http_method = ''GET'',
                   url = set_search u (URLSearchParams_toString (query_params params pageParam))\<rparr>
                  log of
             (Inl e, log') \<Rightarrow> (Inl (Rejected e), log')
           | (Inr r, log') \<Rightarrow> (Inr r, log')))"

subsection \<open>The options the hook hands to useInfiniteQuery\<close>

text \<open>
  \<^verbatim>\<open>
  return useInfiniteQuery({
    queryKey: ["property_room_calendar", params],
    queryFn: fetchData,
    initialPageParam: 0,
    getNextPageParam: (lastpage) => { ... },
    staleTime: 2 * 60 * 1000,
  });
  \<close>
  The option \<^verbatim>\<open>getNextPageParam\<close> is the field \<open>getNextPageParamOpt\<close>; \<open>staleTime\<close> is in
  milliseconds.
\<close>

record 'e options =
  queryKey :: "string \<times> IParams"
  queryFn :: "js_number option \<Rightarrow> request list \<Rightarrow> ('e rejection + fetched) \<times> request list"
  initialPageParam :: js_number
  getNextPageParamOpt :: "fetched \<Rightarrow> js_number option"
  staleTime :: nat

definition useRoomRateAvailabilityCalendar_options :: "'e runtime \<Rightarrow> IParams \<Rightarrow> 'e options" where
  "useRoomRateAvailabilityCalendar_options rt params =
     \<lparr>queryKey = (''property_room_calendar'', params),
      queryFn = fetchData rt params,
      initialPageParam = Num 0,
      getNextPageParamOpt = getNextPageParam,
      staleTime = 2 * 60 * 1000\<rparr>"

subsection \<open>How useInfiniteQuery reads the options\<close>

text \<open>
  This part is not code of the repository. It records the contract of the query library
  (TanStack Query, version 5: its infinite-query behaviour and its staleness test) as far
  as the hook's five options are read by it, so that statements about a pagination run
  can be made. A fetch is taken as one step: calls in flight at the same time, cancellation
  and the library's retry policy (set where the query client is created, outside the
  sources) are not modelled, and a failed fetch leaves the cached data as it was.

  The data of an infinite query are the pages fetched so far and the page parameter each
  was fetched with.
\<close>

record infinite_data =
  pages :: "fetched list"
  pageParams :: "js_number list"

text \<open>The library calls the option on the last page; with no page there is no next parameter.\<close>

definition nextPageParam :: "'e options \<Rightarrow> infinite_data \<Rightarrow> js_number option" where
  "nextPageParam opts d =
     (if pages d = [] then None else getNextPageParamOpt opts (last (pages d)))"

text \<open>\<^verbatim>\<open>hasNextPage\<close>: there are data and the next parameter is neither \<^verbatim>\<open>undefined\<close> nor \<^verbatim>\<open>null\<close>.\<close>

definition hasNextPage :: "'e options \<Rightarrow> infinite_data option \<Rightarrow> bool" where
  "hasNextPage opts d = (case d of None \<Rightarrow> False | Some d' \<Rightarrow> nextPageParam opts d' \<noteq> None)"

text \<open>Fetching one page: \<^verbatim>\<open>queryFn\<close> is called with the parameter; its page and the parameter
  are appended. A rejection is passed on.\<close>

definition fetchPage ::
  "'e options \<Rightarrow> infinite_data \<Rightarrow> js_number \<Rightarrow> request list
     \<Rightarrow> ('e rejection + infinite_data) \<times> request list" where
  "fetchPage opts d param log =
     (case queryFn opts (Some param) log of
        (Inl e, log') \<Rightarrow> (Inl e, log')
      | (Inr page, log') \<Rightarrow>
          (Inr \<lparr>pages = pages d @ [page], pageParams = pageParams d @ [param]\<rparr>, log'))"

text \<open>
  A fetch of the whole query (the first fetch, and a refetch of stale data): the first page
  with the first old parameter or else \<^verbatim>\<open>initialPageParam\<close>, then as many further pages as
  there were, each with the next parameter of the pages fetched so far, stopping early when
  there is none.
\<close>

fun fetchRemaining ::
  "'e options \<Rightarrow> nat \<Rightarrow> infinite_data \<Rightarrow> request list
     \<Rightarrow> ('e rejection + infinite_data) \<times> request list" where
  "fetchRemaining opts 0 result log = (Inr result, log)"
| "fetchRemaining opts (Suc n) result log =
     (case nextPageParam opts result of
        None \<Rightarrow> (Inr result, log)
      | Some p \<Rightarrow>
          (case fetchPage opts result p log of
             (Inl e, log') \<Rightarrow> (Inl e, log')
           | (Inr result', log') \<Rightarrow> fetchRemaining opts n result' log'))"

definition fetchAll ::
  "'e options \<Rightarrow> infinite_data \<Rightarrow> request list
     \<Rightarrow> ('e rejection + infinite_data) \<times> request list" where
  "fetchAll opts old log =
     (case fetchPage opts \<lparr>pages = [], pageParams = []\<rparr>
             (case pageParams old of [] \<Rightarrow> initialPageParam opts | p # _ \<Rightarrow> p) log of
        (Inl e, log') \<Rightarrow> (Inl e, log')
      | (Inr result, log') \<Rightarrow> fetchRemaining opts (length (pages old) - 1) result log')"

text \<open>
  \<^verbatim>\<open>fetchNextPage\<close>: with pages present, one page is fetched with the next parameter; when
  there is no next parameter the data are returned as they are and \<^verbatim>\<open>queryFn\<close> is not called.
  With no page yet it is a fetch of the whole query.
\<close>

definition fetchNextPage ::
  "'e options \<Rightarrow> infinite_data \<Rightarrow> request list
     \<Rightarrow> ('e rejection + infinite_data) \<times> request list" where
  "fetchNextPage opts old log =
     (if pages old = [] then fetchAll opts old log
      else case nextPageParam opts old of
             None \<Rightarrow> (Inr old, log)
           | Some p \<Rightarrow> fetchPage opts old p log)"







subsection \<open>Reading a query string back\<close>

text \<open>
  What a request carries is what the receiver reads out of its query string. The
  \<^verbatim>\<open>application/x-www-form-urlencoded\<close> parser (the one behind \<^verbatim>\<open>url.searchParams\<close>)
  drops a leading \<^verbatim>\<open>?\<close>, splits at \<^verbatim>\<open>&\<close>, skips empty pieces, splits each piece at its
  first \<^verbatim>\<open>=\<close>, turns \<^verbatim>\<open>+\<close> into a space and decodes \<^verbatim>\<open>%XY\<close>. It is used below only
  to state which parameters a request carries.
\<close>

definition hex_value :: "char \<Rightarrow> nat option" where
  "hex_value c =
     (let n = (of_char c :: nat) in
      if 48 \<le> n \<and> n \<le> 57 then Some (n - 48)
      else if 65 \<le> n \<and> n \<le> 70 then Some (n - 55)
      else if 97 \<le> n \<and> n \<le> 102 then Some (n - 87)
      else None)"

fun percent_decode :: "string \<Rightarrow> string" where
  "percent_decode (c # h # l # s) =
     (if c = CHR ''%'' then
        (case (hex_value h, hex_value l) of
           (Some a, Some b) \<Rightarrow> char_of (16 * a + b) # percent_decode s
         | _ \<Rightarrow> c # percent_decode (h # l # s))
      else c # percent_decode (h # l # s))"
| "percent_decode s = s"

definition plus_to_space :: "string \<Rightarrow> string" where
  "plus_to_space s = map (\<lambda>c. if c = CHR ''+'' then CHR '' '' else c) s"

fun split_on :: "char \<Rightarrow> string \<Rightarrow> string list" where
  "split_on sep [] = [[]]"
| "split_on sep (c # s) =
     (if c = sep then [] # split_on sep s
      else (case split_on sep s of [] \<Rightarrow> [[c]] | x # xs \<Rightarrow> (c # x) # xs))"

definition parse_pair :: "string \<Rightarrow> string \<times> string" where
  "parse_pair piece =
     (percent_decode (plus_to_space (takeWhile (\<lambda>c. c \<noteq> CHR ''='') piece)),
      percent_decode (plus_to_space (drop 1 (dropWhile (\<lambda>c. c \<noteq> CHR ''='') piece))))"

definition urlencoded_parse :: "string \<Rightarrow> (string \<times> string) list" where
  "urlencoded_parse s = map parse_pair (filter (\<lambda>piece. piece \<noteq> []) (split_on CHR ''&'' s))"

definition searchParams :: "URL \<Rightarrow> (string \<times> string) list" where
  "searchParams u =
     urlencoded_parse (case search u of [] \<Rightarrow> [] | c # s \<Rightarrow> if c = CHR ''?'' then s else c # s)"

subsection \<open>The kinds of failure the specification names\<close>

text \<open>
  Modelled from the spec: the helper \<^verbatim>\<open>Fetch\<close> is not among the sources, and the
  specification (section 7) names three kinds of failure that a fetch surfaces. Where a
  statement needs a concrete type of \<^verbatim>\<open>Fetch\<close>'s rejections, it is this one.
\<close>

datatype fetch_error = NetworkError | DecodeError | ValidationError

subsection \<open>Examples used by the witnesses\<close>

text \<open>
  The scenario of the specification: property 42, March 2025, a backend at
  \<^verbatim>\<open>https://api.example.com\<close>. The example server answers every request with an empty page
  whose \<^verbatim>\<open>nextCursor\<close> is 11; the failing server rejects every request; the third server
  answers with a page that lists the room category \<^verbatim>\<open>A\<close> twice. The URLs of the examples
  are in the form the parser serialises them to, so that \<open>URL_serialize\<close> leaves them as they
  are. In the second runtime the backend URL is unset, in the third it carries a query.
\<close>

definition example_params :: IParams where
  "example_params = \<lparr>property_id = Num 42, start_date = ''2025-03-01'', end_date = ''2025-03-31''\<rparr>"

definition example_page :: fetched where
  "example_page = \<lparr>data = \<lparr>room_categories = [], nextCursor = Some (Num 11)\<rparr>\<rparr>"

definition last_page :: fetched where
  "last_page = \<lparr>data = \<lparr>room_categories = [], nextCursor = None\<rparr>\<rparr>"

definition zero_cursor_page :: fetched where
  "zero_cursor_page = \<lparr>data = \<lparr>room_categories = [], nextCursor = Some (Num 0)\<rparr>\<rparr>"

definition category_A :: IRoomCategoryCalender where
  "category_A =
     \<lparr>category_id = ''A'', category_name = ''Deluxe'', occupancy = Num 2,
      inventory_calendar = [], rate_plans = []\<rparr>"

definition duplicate_ids_page :: fetched where
  "duplicate_ids_page = \<lparr>data = \<lparr>room_categories = [category_A, category_A], nextCursor = None\<rparr>\<rparr>"

definition example_server :: "request list \<Rightarrow> request \<Rightarrow> 'e + fetched" where
  "example_server log req = Inr example_page"

definition failing_server :: "request list \<Rightarrow> request \<Rightarrow> fetch_error + fetched" where
  "failing_server log req = Inl NetworkError"

definition duplicate_ids_server :: "request list \<Rightarrow> request \<Rightarrow> 'e + fetched" where
  "duplicate_ids_server log req = Inr duplicate_ids_page"

definition example_runtime :: "(request list \<Rightarrow> request \<Rightarrow> 'e + fetched) \<Rightarrow> 'e runtime" where
  "example_runtime server =
     \<lparr>NEXT_PUBLIC_BACKEND_URL = Some ''https://api.example.com'',
      URL_accepts = (\<lambda>s. True),
      URL_serialize = (\<lambda>s. s),
      Fetch_outcome = server\<rparr>"

definition unset_runtime :: "(request list \<Rightarrow> request \<Rightarrow> 'e + fetched) \<Rightarrow> 'e runtime" where
  "unset_runtime server =
     \<lparr>NEXT_PUBLIC_BACKEND_URL = None,
      URL_accepts = (\<lambda>s. True),
      URL_serialize = (\<lambda>s. s),
      Fetch_outcome = server\<rparr>"

definition query_runtime :: "(request list \<Rightarrow> request \<Rightarrow> 'e + fetched) \<Rightarrow> 'e runtime" where
  "query_runtime server =
     \<lparr>NEXT_PUBLIC_BACKEND_URL = Some ''https://api.example.com/v2?debug=1'',
      URL_accepts = (\<lambda>s. True),
      URL_serialize = (\<lambda>s. s),
      Fetch_outcome = server\<rparr>"

definition example_request :: "string \<Rightarrow> request" where
  "example_request cursor =
     \<lparr>http_method = ''GET'',
      url = \<lparr>target = ''https://api.example.com/api/v1/property/42/rate-calendar/assessment'',
             search = ''?start_date=2025-03-01&end_date=2025-03-31&cursor='' @ cursor @
                      ''&fields=id%2Cname%2Crate''\<rparr>\<rparr>"


subsection \<open>The request fetchData builds\<close>

text \<open>The request that \<open>fetchData\<close> hands to \<^verbatim>\<open>Fetch\<close> for a page parameter, once the URL parses.\<close>

definition page_request :: "'e runtime \<Rightarrow> IParams \<Rightarrow> js_number \<Rightarrow> request" where
  "page_request rt params pageParam =
     \<lparr>http_method = ''GET'',
      url = \<lparr>target = URL_serialize rt (url_base (url_input (endpoint rt params))),
             search = ''?'' @ URLSearchParams_toString (query_params params pageParam)\<rparr>\<rparr>"

section \<open>Properties\<close>

subsection \<open>What fetchData does\<close>

lemma urlencode_Nil: "urlencode [] = []"
  by (simp add: urlencode_def)

lemma urlencode_Cons: "urlencode (c # s) = urlencode_byte c @ urlencode s"
  by (simp add: urlencode_def)

lemmas urlencode_eval =
  urlencode_Nil urlencode_Cons urlencode_byte_def ascii_alpha_def ascii_digit_def hex_digit_def

lemma search_string_shape:
  "URLSearchParams_toString (query_params params pageParam) =
     ''start_date='' @ urlencode (start_date params) @
     ''&end_date='' @ urlencode (end_date params) @
     ''&cursor='' @ urlencode (number_toString pageParam) @ ''&fields=id%2Cname%2Crate''"
  by (simp add: query_params_def urlencode_eval)

lemma set_search_query:
  "set_search u (URLSearchParams_toString (query_params params pageParam)) =
     u\<lparr>search := ''?'' @ URLSearchParams_toString (query_params params pageParam)\<rparr>"
  by (simp add: search_string_shape set_search_def)

lemma fetchData_invalid:
  "\<not> (has_scheme (endpoint rt params) \<and> URL_accepts rt (endpoint rt params)) \<Longrightarrow>
     fetchData rt params pageParamArg log = (Inl TypeError_Invalid_URL, log)"
  by (auto simp add: fetchData_def new_URL_def)

lemma fetchData_valid:
  "has_scheme (endpoint rt params) \<Longrightarrow> URL_accepts rt (endpoint rt params) \<Longrightarrow>
     fetchData rt params pageParamArg log =
       (case Fetch_outcome rt log
               (page_request rt params (case pageParamArg of None \<Rightarrow> Num 0 | Some p \<Rightarrow> p)) of
          Inl e \<Rightarrow> Inl (Rejected e)
        | Inr r \<Rightarrow> Inr r,
        log @ [page_request rt params (case pageParamArg of None \<Rightarrow> Num 0 | Some p \<Rightarrow> p)])"
  by (simp add: fetchData_def new_URL_def Fetch_def page_request_def set_search_query Let_def
        split: sum.splits)


subsection \<open>The examples, evaluated\<close>

lemma example_endpoint:
  "endpoint (example_runtime server) example_params =
     ''https://api.example.com/api/v1/property/42/rate-calendar/assessment''"
  by (simp add: endpoint_def example_runtime_def example_params_def template_def
        decimal.simps digit_char_def)

lemma example_has_scheme: "has_scheme (endpoint (example_runtime server) example_params)"
  by (simp add: example_endpoint has_scheme_def scheme_char_def ascii_alpha_def ascii_digit_def)

lemma example_accepts: "URL_accepts (example_runtime server) s"
  by (simp add: example_runtime_def)

lemma example_target:
  "URL_serialize (example_runtime server)
     (url_base (url_input (endpoint (example_runtime server) example_params))) =
     ''https://api.example.com/api/v1/property/42/rate-calendar/assessment''"
  unfolding example_endpoint
  by (simp add: example_runtime_def url_input_def url_base_def)

lemma example_outcome: "Fetch_outcome (example_runtime server) log req = server log req"
  by (simp add: example_runtime_def)

lemma example_request_0:
  "page_request (example_runtime server) example_params (Num 0) = example_request ''0''"
  unfolding page_request_def example_target
  by (simp add: example_request_def search_string_shape example_params_def urlencode_eval
        decimal.simps digit_char_def)

lemma example_request_11:
  "page_request (example_runtime server) example_params (Num 11) = example_request ''11''"
  unfolding page_request_def example_target
  by (simp add: example_request_def search_string_shape example_params_def urlencode_eval
        decimal.simps digit_char_def)

lemma unset_endpoint:
  "endpoint (unset_runtime server) example_params =
     ''undefined/api/v1/property/42/rate-calendar/assessment''"
  by (simp add: endpoint_def unset_runtime_def example_params_def template_def
        decimal.simps digit_char_def)

lemma unset_has_no_scheme: "\<not> has_scheme (endpoint (unset_runtime server) example_params)"
  by (simp add: unset_endpoint has_scheme_def scheme_char_def ascii_alpha_def ascii_digit_def)

lemma example_fetchData:
  "fetchData (example_runtime server) example_params (Some (Num 0)) log =
     (case server log (example_request ''0'') of Inl e \<Rightarrow> Inl (Rejected e) | Inr r \<Rightarrow> Inr r,
      log @ [example_request ''0''])"
  "fetchData (example_runtime server) example_params None log =
     (case server log (example_request ''0'') of Inl e \<Rightarrow> Inl (Rejected e) | Inr r \<Rightarrow> Inr r,
      log @ [example_request ''0''])"
  "fetchData (example_runtime server) example_params (Some (Num 11)) log =
     (case server log (example_request ''11'') of Inl e \<Rightarrow> Inl (Rejected e) | Inr r \<Rightarrow> Inr r,
      log @ [example_request ''11''])"
  by (simp_all add: fetchData_valid example_has_scheme example_accepts example_outcome
        example_request_0 example_request_11)

subsection \<open>The address of the request\<close>

lemma digit_char_digit: "d < 10 \<Longrightarrow> digit_char d \<in> set ''0123456789''"
  unfolding digit_char_def by (rule nth_mem) simp

lemma decimal_digits: "c \<in> set (decimal n) \<Longrightarrow> c \<in> set ''0123456789''"
proof (induction n rule: decimal.induct)
  case (1 n)
  show ?case
  proof (cases "n < 10")
    case True
    then have "decimal n = [digit_char n]" by (simp add: decimal.simps [of n])
    with 1(2) True show ?thesis using digit_char_digit [of n] by simp
  next
    case False
    then have unfold: "decimal n = decimal (n div 10) @ [digit_char (n mod 10)]"
      by (simp add: decimal.simps [of n])
    have "n mod 10 < 10" by simp
    then have last: "digit_char (n mod 10) \<in> set ''0123456789''" by (rule digit_char_digit)
    from 1(2) have "c \<in> set (decimal (n div 10) @ [digit_char (n mod 10)])"
      by (simp only: unfold [symmetric])
    then have "c \<in> set (decimal (n div 10)) \<or> c = digit_char (n mod 10)" by auto
    then show ?thesis
    proof
      assume "c \<in> set (decimal (n div 10))"
      then show ?thesis using 1(1) [OF False] by blast
    next
      assume "c = digit_char (n mod 10)"
      then show ?thesis using last by blast
    qed
  qed
qed

lemma plain_digit:
  "c \<in> set ''0123456789'' \<Longrightarrow> 32 < (of_char c :: nat) \<and> c \<noteq> CHR ''?'' \<and> c \<noteq> CHR ''#''"
  by simp (elim disjE; simp)

lemma number_toString_plain:
  assumes "c \<in> set (number_toString p)"
  shows "32 < (of_char c :: nat) \<and> c \<noteq> CHR ''?'' \<and> c \<noteq> CHR ''#''"
proof (cases p)
  case (Num n)
  have sign: "32 < (of_char (CHR ''-'') :: nat) \<and> CHR ''-'' \<noteq> CHR ''?'' \<and> CHR ''-'' \<noteq> CHR ''#''"
    by simp
  from assms Num have "c = CHR ''-'' \<or> c \<in> set (decimal (nat (- n))) \<or> c \<in> set (decimal (nat n))"
    by (auto split: if_splits)
  then show ?thesis
    using sign decimal_digits [of c "nat (- n)"] decimal_digits [of c "nat n"] plain_digit [of c]
    by blast
next
  case NaN
  with assms have "c = CHR ''N'' \<or> c = CHR ''a''" by auto
  then show ?thesis by (elim disjE) simp_all
qed

lemma url_input_plain:
  assumes "\<forall>c \<in> set s. 32 < (of_char c :: nat)"
  shows "url_input s = s"
proof -
  have drop: "dropWhile (\<lambda>c. (of_char c :: nat) \<le> 32) xs = xs"
    if "\<forall>c \<in> set xs. 32 < (of_char c :: nat)" for xs
    using that by (cases xs) auto
  have "dropWhile (\<lambda>c. (of_char c :: nat) \<le> 32) (rev s) = rev s"
    using assms by (intro drop) simp
  moreover have "filter (\<lambda>c. (of_char c :: nat) \<noteq> 9 \<and> (of_char c :: nat) \<noteq> 10 \<and>
      (of_char c :: nat) \<noteq> 13) s = s"
    using assms by (intro filter_True) auto
  ultimately show ?thesis
    using drop [OF assms] by (simp add: url_input_def)
qed

lemma url_base_plain:
  "\<forall>c \<in> set s. c \<noteq> CHR ''?'' \<and> c \<noteq> CHR ''#'' \<Longrightarrow> url_base s = s"
  by (simp add: url_base_def takeWhile_eq_all_conv)

lemma endpoint_is_base:
  assumes "\<forall>c \<in> set (template (NEXT_PUBLIC_BACKEND_URL rt)).
             32 < (of_char c :: nat) \<and> c \<noteq> CHR ''?'' \<and> c \<noteq> CHR ''#''"
  shows "url_base (url_input (endpoint rt params)) = endpoint rt params"
proof -
  have all: "\<forall>c \<in> set (endpoint rt params).
      32 < (of_char c :: nat) \<and> c \<noteq> CHR ''?'' \<and> c \<noteq> CHR ''#''"
    using assms number_toString_plain [of _ "property_id params"]
    by (auto simp add: endpoint_def)
  then have "url_input (endpoint rt params) = endpoint rt params"
    by (intro url_input_plain) simp
  moreover have "url_base (endpoint rt params) = endpoint rt params"
    using all by (intro url_base_plain) simp
  ultimately show ?thesis by simp
qed

lemma query_endpoint:
  "endpoint (query_runtime server) example_params =
     ''https://api.example.com/v2?debug=1/api/v1/property/42/rate-calendar/assessment''"
  by (simp add: endpoint_def query_runtime_def example_params_def template_def
        decimal.simps digit_char_def)

lemma query_has_scheme: "has_scheme (endpoint (query_runtime server) example_params)"
  by (simp add: query_endpoint has_scheme_def scheme_char_def ascii_alpha_def ascii_digit_def)

lemma query_target:
  "URL_serialize (query_runtime server)
     (url_base (url_input (endpoint (query_runtime server) example_params))) =
     ''https://api.example.com/v2''"
  unfolding query_endpoint
  by (simp add: query_runtime_def url_input_def url_base_def)

lemma query_fetchData:
  "fetchData (query_runtime server) example_params None log =
     (case server log
        \<lparr>http_method = ''GET'',
         url = \<lparr>target = ''https://api.example.com/v2'',
                search = ''?start_date=2025-03-01&end_date=2025-03-31&cursor=0&fields=id%2Cname%2Crate''\<rparr>\<rparr>
      of Inl e \<Rightarrow> Inl (Rejected e) | Inr r \<Rightarrow> Inr r,
      log @ [\<lparr>http_method = ''GET'',
         url = \<lparr>target = ''https://api.example.com/v2'',
                search = ''?start_date=2025-03-01&end_date=2025-03-31&cursor=0&fields=id%2Cname%2Crate''\<rparr>\<rparr>])"
proof -
  have req: "page_request (query_runtime server) example_params (Num 0) =
      \<lparr>http_method = ''GET'',
       url = \<lparr>target = ''https://api.example.com/v2'',
              search = ''?start_date=2025-03-01&end_date=2025-03-31&cursor=0&fields=id%2Cname%2Crate''\<rparr>\<rparr>"
    unfolding page_request_def query_target
    by (simp add: search_string_shape example_params_def urlencode_eval decimal.simps digit_char_def)
  have acc: "URL_accepts (query_runtime server) (endpoint (query_runtime server) example_params)"
    by (simp add: query_runtime_def)
  have out: "Fetch_outcome (query_runtime server) log r = server log r" for r
    by (simp add: query_runtime_def)
  show ?thesis
    using fetchData_valid [OF query_has_scheme acc, of None log]
    by (simp add: req out)
qed

subsection \<open>How the library steps read the hook's options\<close>

lemma getNextPageParam_Some:
  "getNextPageParam lastpage = Some c \<longleftrightarrow> nextCursor (data lastpage) = Some c \<and> truthy c"
  by (auto simp add: getNextPageParam_def split: option.splits)

lemma getNextPageParam_None:
  "getNextPageParam lastpage = None \<longleftrightarrow>
     nextCursor (data lastpage) = None \<or> (\<exists>c. nextCursor (data lastpage) = Some c \<and> \<not> truthy c)"
  by (auto simp add: getNextPageParam_def split: option.splits)

lemma falsy_iff: "\<not> truthy c \<longleftrightarrow> c = Num 0 \<or> c = NaN"
  by (cases c) auto

lemma nextPageParam_of_hook:
  "nextPageParam (useRoomRateAvailabilityCalendar_options rt params) d =
     (if pages d = [] then None else getNextPageParam (last (pages d)))"
  by (simp add: nextPageParam_def useRoomRateAvailabilityCalendar_options_def)

lemma fetchPage_of_hook:
  "fetchPage (useRoomRateAvailabilityCalendar_options rt params) d param log =
     (case fetchData rt params (Some param) log of
        (Inl e, log') \<Rightarrow> (Inl e, log')
      | (Inr page, log') \<Rightarrow>
          (Inr \<lparr>pages = pages d @ [page], pageParams = pageParams d @ [param]\<rparr>, log'))"
  by (simp add: fetchPage_def useRoomRateAvailabilityCalendar_options_def)

lemma fetchNextPage_of_hook:
  "pages d \<noteq> [] \<Longrightarrow>
     fetchNextPage (useRoomRateAvailabilityCalendar_options rt params) d log =
       (case getNextPageParam (last (pages d)) of
          None \<Rightarrow> (Inr d, log)
        | Some p \<Rightarrow> fetchPage (useRoomRateAvailabilityCalendar_options rt params) d p log)"
  by (simp add: fetchNextPage_def nextPageParam_of_hook)

lemma first_fetch_of_hook:
  "fetchAll (useRoomRateAvailabilityCalendar_options rt params) \<lparr>pages = [], pageParams = []\<rparr> log =
     fetchPage (useRoomRateAvailabilityCalendar_options rt params)
       \<lparr>pages = [], pageParams = []\<rparr> (Num 0) log"
  by (simp add: fetchAll_def useRoomRateAvailabilityCalendar_options_def split: prod.splits sum.splits)








subsection \<open>The serializer and the parser are inverse\<close>

lemma hex_value_hex_digit: "d < 16 \<Longrightarrow> hex_value (hex_digit d) = Some d"
proof -
  assume "d < 16"
  then have "d = 0 \<or> d = 1 \<or> d = 2 \<or> d = 3 \<or> d = 4 \<or> d = 5 \<or> d = 6 \<or> d = 7 \<or>
             d = 8 \<or> d = 9 \<or> d = 10 \<or> d = 11 \<or> d = 12 \<or> d = 13 \<or> d = 14 \<or> d = 15"
    by arith
  then show ?thesis
    by (elim disjE) (simp_all add: hex_value_def hex_digit_def)
qed

lemma hex_digit_plain: "d < 16 \<Longrightarrow> hex_digit d \<notin> {CHR ''&'', CHR ''='', CHR ''+'', CHR ''%''}"
proof -
  assume "d < 16"
  then have "d = 0 \<or> d = 1 \<or> d = 2 \<or> d = 3 \<or> d = 4 \<or> d = 5 \<or> d = 6 \<or> d = 7 \<or>
             d = 8 \<or> d = 9 \<or> d = 10 \<or> d = 11 \<or> d = 12 \<or> d = 13 \<or> d = 14 \<or> d = 15"
    by arith
  then show ?thesis
    by (elim disjE) (simp_all add: hex_digit_def)
qed

lemma byte_nibbles: "of_char c div 16 < (16::nat)" "of_char c mod 16 < (16::nat)"
proof -
  have "of_char c < (256::nat)" by simp
  then show "of_char c div 16 < (16::nat)" by arith
  show "of_char c mod 16 < (16::nat)" by simp
qed

lemma percent_decode_plain:
  "c \<noteq> CHR ''%'' \<Longrightarrow> percent_decode (c # s) = c # percent_decode s"
  by (cases s rule: percent_decode.cases) (auto)

lemma percent_decode_escape:
  "hex_value h = Some a \<Longrightarrow> hex_value l = Some b \<Longrightarrow>
     percent_decode (CHR ''%'' # h # l # s) = char_of (16 * a + b) # percent_decode s"
  by simp

lemma urlencode_byte_no_separator:
  "CHR ''&'' \<notin> set (urlencode_byte c) \<and> CHR ''='' \<notin> set (urlencode_byte c)"
proof -
  note d = byte_nibbles [of c]
  have "of_char (CHR ''&'') = (38::nat)" "of_char (CHR ''='') = (61::nat)" by simp_all
  then have "ascii_alpha (of_char c) \<or> ascii_digit (of_char c) \<or> of_char c = (42::nat) \<or>
        of_char c = (45::nat) \<or> of_char c = (46::nat) \<or> of_char c = (95::nat) \<Longrightarrow>
        c \<noteq> CHR ''&'' \<and> c \<noteq> CHR ''=''"
    by (auto simp add: ascii_alpha_def ascii_digit_def)
  then show ?thesis
    using hex_digit_plain [OF d(1)] hex_digit_plain [OF d(2)]
    by (auto simp add: urlencode_byte_def Let_def)
qed

lemma urlencode_no_separator:
  "CHR ''&'' \<notin> set (urlencode s) \<and> CHR ''='' \<notin> set (urlencode s)"
  using urlencode_byte_no_separator by (induction s) (auto simp add: urlencode_def)

lemma decode_urlencode_byte:
  "percent_decode (plus_to_space (urlencode_byte c @ s)) = c # percent_decode (plus_to_space s)"
proof -
  let ?n = "of_char c :: nat"
  note d = byte_nibbles [of c]
  consider (space) "?n = 32"
    | (kept) "?n \<noteq> 32" "ascii_alpha ?n \<or> ascii_digit ?n \<or> ?n = 42 \<or> ?n = 45 \<or> ?n = 46 \<or> ?n = 95"
    | (escaped) "?n \<noteq> 32" "\<not> (ascii_alpha ?n \<or> ascii_digit ?n \<or> ?n = 42 \<or> ?n = 45 \<or> ?n = 46 \<or> ?n = 95)"
    by blast
  then show ?thesis
  proof cases
    case space
    then have "of_char c = (of_char (CHR '' '') :: nat)" by simp
    then have "c = CHR '' ''" by (rule of_char_eqI)
    then show ?thesis
      by (simp add: urlencode_byte_def plus_to_space_def percent_decode_plain)
  next
    case kept
    have "of_char (CHR ''+'') = (43::nat)" "of_char (CHR ''%'') = (37::nat)" by simp_all
    with kept have "c \<noteq> CHR ''+''" "c \<noteq> CHR ''%''"
      by (auto simp add: ascii_alpha_def ascii_digit_def)
    with kept show ?thesis
      by (simp add: urlencode_byte_def plus_to_space_def percent_decode_plain)
  next
    case escaped
    have enc: "urlencode_byte c = [CHR ''%'', hex_digit (?n div 16), hex_digit (?n mod 16)]"
      using escaped by (simp add: urlencode_byte_def Let_def)
    have h: "hex_digit (?n div 16) \<noteq> CHR ''+''" "hex_digit (?n mod 16) \<noteq> CHR ''+''"
      using hex_digit_plain [OF d(1)] hex_digit_plain [OF d(2)] by simp_all
    have sp: "plus_to_space (urlencode_byte c @ s) =
        CHR ''%'' # hex_digit (?n div 16) # hex_digit (?n mod 16) # plus_to_space s"
      using h by (simp add: enc plus_to_space_def)
    have "percent_decode
            (CHR ''%'' # hex_digit (?n div 16) # hex_digit (?n mod 16) # plus_to_space s) =
          char_of (16 * (?n div 16) + ?n mod 16) # percent_decode (plus_to_space s)"
      by (rule percent_decode_escape [OF hex_value_hex_digit [OF d(1)] hex_value_hex_digit [OF d(2)]])
    then show ?thesis by (simp add: sp)
  qed
qed

lemma decode_urlencode: "percent_decode (plus_to_space (urlencode s)) = s"
proof (induction s)
  case Nil
  then show ?case by (simp add: urlencode_def plus_to_space_def)
next
  case (Cons c s)
  have "urlencode (c # s) = urlencode_byte c @ urlencode s" by (simp add: urlencode_def)
  then show ?case using Cons decode_urlencode_byte [of c "urlencode s"] by simp
qed

lemma split_on_no_separator: "sep \<notin> set a \<Longrightarrow> split_on sep a = [a]"
  by (induction a) auto

lemma split_on_append:
  "sep \<notin> set a \<Longrightarrow> split_on sep (a @ sep # s) = a # split_on sep s"
  by (induction a) auto

lemma parse_pair_encoded: "parse_pair (urlencode k @ CHR ''='' # urlencode v) = (k, v)"
proof -
  have "\<forall>c \<in> set (urlencode k). c \<noteq> CHR ''=''"
    using urlencode_no_separator [of k] by auto
  then have "takeWhile (\<lambda>c. c \<noteq> CHR ''='') (urlencode k @ CHR ''='' # urlencode v) = urlencode k"
    and "dropWhile (\<lambda>c. c \<noteq> CHR ''='') (urlencode k @ CHR ''='' # urlencode v) = CHR ''='' # urlencode v"
    by (simp_all add: takeWhile_append2 dropWhile_append2 takeWhile_tail dropWhile_append3)
  then show ?thesis by (simp add: parse_pair_def decode_urlencode)
qed

lemma piece_no_ampersand: "CHR ''&'' \<notin> set (urlencode k @ CHR ''='' # urlencode v)"
  using urlencode_no_separator [of k] urlencode_no_separator [of v] by simp

lemma urlencoded_roundtrip: "urlencoded_parse (URLSearchParams_toString kvs) = kvs"
proof (induction kvs rule: URLSearchParams_toString.induct)
  case 1
  then show ?case by (simp add: urlencoded_parse_def)
next
  case (2 k v)
  then show ?case
    using split_on_no_separator [OF piece_no_ampersand [of k v]]
    by (simp add: urlencoded_parse_def parse_pair_encoded)
next
  case (3 k v kv kvs)
  have "URLSearchParams_toString ((k, v) # kv # kvs) =
          (urlencode k @ CHR ''='' # urlencode v) @ CHR ''&'' # URLSearchParams_toString (kv # kvs)"
    by (cases kv) simp
  then show ?case
    using 3 split_on_append [OF piece_no_ampersand [of k v]]
    by (simp add: urlencoded_parse_def parse_pair_encoded)
qed

lemma searchParams_page_request:
  "searchParams (url (page_request rt params pageParam)) = query_params params pageParam"
  by (simp add: searchParams_def page_request_def urlencoded_roundtrip)

section \<open>The claims\<close>

subsection \<open>C1: what getNextPageParam returns\<close>

text \<open>
  C1 as stated: \<open>getNextPageParam\<close> returns the response's \<^verbatim>\<open>nextCursor\<close> whenever it is
  present. It does not for the cursor \<^verbatim>\<open>0\<close>: the page below carries \<^verbatim>\<open>nextCursor: 0\<close> and
  the function returns \<^verbatim>\<open>undefined\<close>.
\<close>

theorem getNextPageParam_zero_cursor:
  "nextCursor (data zero_cursor_page) = Some (Num 0) \<and>
   getNextPageParam zero_cursor_page = None"
  by (simp add: getNextPageParam_def zero_cursor_page_def)

text \<open>
  C1, amended: \<open>getNextPageParam\<close> returns the response's \<^verbatim>\<open>nextCursor\<close> when it is present
  and truthy (a number other than \<^verbatim>\<open>0\<close> and \<^verbatim>\<open>NaN\<close>) and \<^verbatim>\<open>undefined\<close> otherwise (absent
  or falsy). There is a next page exactly when the last page's \<^verbatim>\<open>nextCursor\<close> is present and
  truthy; when there is none, \<^verbatim>\<open>fetchNextPage\<close> returns the pages as they are and makes no
  request, and when there is one, it fetches the page for that cursor with \<open>fetchData\<close>.
\<close>

theorem getNextPageParam_truthy_cursor:
  "(getNextPageParam lastpage = Some c \<longleftrightarrow> nextCursor (data lastpage) = Some c \<and> truthy c) \<and>
   (getNextPageParam lastpage = None \<longleftrightarrow>
      nextCursor (data lastpage) = None \<or>
      (\<exists>c'. nextCursor (data lastpage) = Some c' \<and> \<not> truthy c')) \<and>
   (hasNextPage (useRoomRateAvailabilityCalendar_options rt params) (Some d) \<longleftrightarrow>
      pages d \<noteq> [] \<and> (\<exists>c'. nextCursor (data (last (pages d))) = Some c' \<and> truthy c')) \<and>
   (pages d \<noteq> [] \<longrightarrow> \<not> hasNextPage (useRoomRateAvailabilityCalendar_options rt params) (Some d) \<longrightarrow>
      fetchNextPage (useRoomRateAvailabilityCalendar_options rt params) d log = (Inr d, log)) \<and>
   (pages d \<noteq> [] \<longrightarrow> nextCursor (data (last (pages d))) = Some c \<longrightarrow> truthy c \<longrightarrow>
      fetchNextPage (useRoomRateAvailabilityCalendar_options rt params) d log =
        (case fetchData rt params (Some c) log of
           (Inl e, log') \<Rightarrow> (Inl e, log')
         | (Inr page, log') \<Rightarrow>
             (Inr \<lparr>pages = pages d @ [page], pageParams = pageParams d @ [c]\<rparr>, log')))"
proof -
  let ?opts = "useRoomRateAvailabilityCalendar_options rt params"
  have has: "hasNextPage ?opts (Some d) \<longleftrightarrow>
      pages d \<noteq> [] \<and> (\<exists>c'. nextCursor (data (last (pages d))) = Some c' \<and> truthy c')"
    by (auto simp add: hasNextPage_def nextPageParam_of_hook getNextPageParam_def
          split: option.splits)
  have stop: "pages d \<noteq> [] \<longrightarrow> \<not> hasNextPage ?opts (Some d) \<longrightarrow>
      fetchNextPage ?opts d log = (Inr d, log)"
    by (simp add: hasNextPage_def nextPageParam_of_hook fetchNextPage_of_hook)
  have go: "pages d \<noteq> [] \<longrightarrow> nextCursor (data (last (pages d))) = Some c \<longrightarrow> truthy c \<longrightarrow>
      fetchNextPage ?opts d log =
        (case fetchData rt params (Some c) log of
           (Inl e, log') \<Rightarrow> (Inl e, log')
         | (Inr page, log') \<Rightarrow>
             (Inr \<lparr>pages = pages d @ [page], pageParams = pageParams d @ [c]\<rparr>, log'))"
    by (simp add: fetchNextPage_of_hook fetchPage_of_hook getNextPageParam_def)
  show ?thesis
    using has stop go getNextPageParam_Some [of lastpage c] getNextPageParam_None [of lastpage]
    by blast
qed

theorem getNextPageParam_truthy_cursor_witness:
  "getNextPageParam example_page = Some (Num 11) \<and>
   hasNextPage (useRoomRateAvailabilityCalendar_options (example_runtime example_server :: unit runtime) example_params)
     (Some \<lparr>pages = [example_page], pageParams = [Num 0]\<rparr>) \<and>
   fetchNextPage (useRoomRateAvailabilityCalendar_options (example_runtime example_server :: unit runtime) example_params)
     \<lparr>pages = [example_page], pageParams = [Num 0]\<rparr> [example_request ''0''] =
     (Inr \<lparr>pages = [example_page, example_page], pageParams = [Num 0, Num 11]\<rparr>,
      [example_request ''0'', example_request ''11'']) \<and>
   getNextPageParam last_page = None \<and>
   \<not> hasNextPage (useRoomRateAvailabilityCalendar_options (example_runtime example_server :: unit runtime) example_params)
     (Some \<lparr>pages = [example_page, last_page], pageParams = [Num 0, Num 11]\<rparr>) \<and>
   fetchNextPage (useRoomRateAvailabilityCalendar_options (example_runtime example_server :: unit runtime) example_params)
     \<lparr>pages = [example_page, last_page], pageParams = [Num 0, Num 11]\<rparr>
     [example_request ''0'', example_request ''11''] =
     (Inr \<lparr>pages = [example_page, last_page], pageParams = [Num 0, Num 11]\<rparr>,
      [example_request ''0'', example_request ''11''])"
proof -
  note go = getNextPageParam_truthy_cursor
    [of example_page "Num 11" "example_runtime example_server :: unit runtime" example_params
        "\<lparr>pages = [example_page], pageParams = [Num 0]\<rparr>" "[example_request ''0'']"]
  note stop = getNextPageParam_truthy_cursor
    [of last_page "Num 11" "example_runtime example_server :: unit runtime" example_params
        "\<lparr>pages = [example_page, last_page], pageParams = [Num 0, Num 11]\<rparr>"
        "[example_request ''0'', example_request ''11'']"]
  have next_11: "nextCursor (data example_page) = Some (Num 11)"
    by (simp add: example_page_def)
  have next_none: "nextCursor (data last_page) = None"
    by (simp add: last_page_def)
  from go next_11 have 1: "getNextPageParam example_page = Some (Num 11)"
    and 2: "hasNextPage (useRoomRateAvailabilityCalendar_options
              (example_runtime example_server :: unit runtime) example_params)
            (Some \<lparr>pages = [example_page], pageParams = [Num 0]\<rparr>)"
    and 3: "fetchNextPage (useRoomRateAvailabilityCalendar_options
              (example_runtime example_server :: unit runtime) example_params)
            \<lparr>pages = [example_page], pageParams = [Num 0]\<rparr> [example_request ''0''] =
            (Inr \<lparr>pages = [example_page, example_page], pageParams = [Num 0, Num 11]\<rparr>,
             [example_request ''0'', example_request ''11''])"
    by (simp_all add: example_fetchData example_server_def)
  from stop next_none have 4: "getNextPageParam last_page = None"
    and 5: "\<not> hasNextPage (useRoomRateAvailabilityCalendar_options
              (example_runtime example_server :: unit runtime) example_params)
            (Some \<lparr>pages = [example_page, last_page], pageParams = [Num 0, Num 11]\<rparr>)"
    by simp_all
  from stop 5 have 6: "fetchNextPage (useRoomRateAvailabilityCalendar_options
              (example_runtime example_server :: unit runtime) example_params)
            \<lparr>pages = [example_page, last_page], pageParams = [Num 0, Num 11]\<rparr>
            [example_request ''0'', example_request ''11''] =
            (Inr \<lparr>pages = [example_page, last_page], pageParams = [Num 0, Num 11]\<rparr>,
             [example_request ''0'', example_request ''11''])"
    by simp
  from 1 2 3 4 5 6 show ?thesis by simp
qed

subsection \<open>C2: a repeated cursor\<close>

text \<open>
  C2 as stated: when the server returns a \<^verbatim>\<open>next_cursor\<close> already seen in the run, the
  fetch fails with \<^verbatim>\<open>ValidationError\<close>. The example server returns \<^verbatim>\<open>nextCursor: 11\<close> on
  every page. The fetch for cursor 11 gets \<^verbatim>\<open>nextCursor: 11\<close> back and succeeds, and the
  next \<^verbatim>\<open>fetchNextPage\<close> requests cursor 11 once more and succeeds again.
\<close>

theorem repeated_cursor_is_followed:
  "fetchNextPage (useRoomRateAvailabilityCalendar_options
       (example_runtime example_server :: fetch_error runtime) example_params)
     \<lparr>pages = [example_page], pageParams = [Num 0]\<rparr> [example_request ''0''] =
     (Inr \<lparr>pages = [example_page, example_page], pageParams = [Num 0, Num 11]\<rparr>,
      [example_request ''0'', example_request ''11'']) \<and>
   nextCursor (data example_page) = Some (Num 11) \<and>
   Num 11 \<in> set [Num 0, Num 11] \<and>
   fetchNextPage (useRoomRateAvailabilityCalendar_options
       (example_runtime example_server :: fetch_error runtime) example_params)
     \<lparr>pages = [example_page, example_page], pageParams = [Num 0, Num 11]\<rparr>
     [example_request ''0'', example_request ''11''] =
     (Inr \<lparr>pages = [example_page, example_page, example_page],
            pageParams = [Num 0, Num 11, Num 11]\<rparr>,
      [example_request ''0'', example_request ''11'', example_request ''11''])"
  by (simp add: fetchNextPage_of_hook fetchPage_of_hook getNextPageParam_def example_page_def
        example_fetchData example_server_def)

text \<open>
  C2, amended: the hook has no guard against a repeated cursor. When the last page's
  \<^verbatim>\<open>nextCursor\<close> is truthy and equals a cursor already used in the run, \<^verbatim>\<open>fetchNextPage\<close>
  requests that cursor again; when \<^verbatim>\<open>Fetch\<close> resolves, the page is appended and the run goes
  on. A \<^verbatim>\<open>fetchNextPage\<close> fails only with a failure of \<open>fetchData\<close> (the \<^verbatim>\<open>TypeError\<close> of
  the URL or the rejection of \<^verbatim>\<open>Fetch\<close>), never with an error of the hook's own.
\<close>

theorem repeated_cursor_not_detected:
  assumes "pages d \<noteq> []"
    and "nextCursor (data (last (pages d))) = Some c" and "truthy c"
    and "c \<in> set (pageParams d)"
  shows "(has_scheme (endpoint rt params) \<and> URL_accepts rt (endpoint rt params) \<and>
          Fetch_outcome rt log (page_request rt params c) = Inr page \<longrightarrow>
            fetchNextPage (useRoomRateAvailabilityCalendar_options rt params) d log =
              (Inr \<lparr>pages = pages d @ [page], pageParams = pageParams d @ [c]\<rparr>,
               log @ [page_request rt params c])) \<and>
         (fst (fetchNextPage (useRoomRateAvailabilityCalendar_options rt params) d log) = Inl failure \<longrightarrow>
            failure = TypeError_Invalid_URL \<or>
            (\<exists>e. failure = Rejected e \<and> Fetch_outcome rt log (page_request rt params c) = Inl e))"
proof -
  let ?opts = "useRoomRateAvailabilityCalendar_options rt params"
  have step: "fetchNextPage ?opts d log = fetchPage ?opts d c log"
    using assms by (simp add: fetchNextPage_of_hook getNextPageParam_def)
  show ?thesis
  proof (cases "has_scheme (endpoint rt params) \<and> URL_accepts rt (endpoint rt params)")
    case True
    then show ?thesis
      by (auto simp add: step fetchPage_of_hook fetchData_valid split: sum.splits)
  next
    case False
    then have "fetchData rt params (Some c) log = (Inl TypeError_Invalid_URL, log)"
      by (rule fetchData_invalid)
    with False show ?thesis
      by (auto simp add: step fetchPage_of_hook)
  qed
qed

theorem repeated_cursor_not_detected_witness:
  "Num 11 \<in> set (pageParams \<lparr>pages = [example_page, example_page], pageParams = [Num 0, Num 11]\<rparr>) \<and>
   fetchNextPage (useRoomRateAvailabilityCalendar_options
       (example_runtime example_server :: fetch_error runtime) example_params)
     \<lparr>pages = [example_page, example_page], pageParams = [Num 0, Num 11]\<rparr>
     [example_request ''0'', example_request ''11''] =
     (Inr \<lparr>pages = [example_page, example_page, example_page],
            pageParams = [Num 0, Num 11, Num 11]\<rparr>,
      [example_request ''0'', example_request ''11'', example_request ''11''])"
proof -
  let ?d = "\<lparr>pages = [example_page, example_page], pageParams = [Num 0, Num 11]\<rparr>"
  have 1: "pages ?d \<noteq> []" by simp
  have 2: "nextCursor (data (last (pages ?d))) = Some (Num 11)" by (simp add: example_page_def)
  have 3: "truthy (Num 11)" by simp
  have 4: "Num 11 \<in> set (pageParams ?d)" by simp
  from repeated_cursor_not_detected
    [OF 1 2 3 4, of "example_runtime example_server :: fetch_error runtime" example_params
       "[example_request ''0'', example_request ''11'']" example_page]
  show ?thesis
    by (simp add: example_has_scheme example_accepts example_outcome example_request_11
          example_server_def)
qed

subsection \<open>C3: the cursor of the first request\<close>

text \<open>
  C3 as stated: the first request of a run is made without a cursor. The first fetch of the
  hook against the example server makes one request, and its query string carries
  \<^verbatim>\<open>cursor=0\<close>.
\<close>

theorem first_request_carries_cursor_0:
  "snd (fetchAll (useRoomRateAvailabilityCalendar_options
          (example_runtime example_server :: unit runtime) example_params)
        \<lparr>pages = [], pageParams = []\<rparr> []) =
     [\<lparr>http_method = ''GET'',
       url = \<lparr>target = ''https://api.example.com/api/v1/property/42/rate-calendar/assessment'',
              search = ''?start_date=2025-03-01&end_date=2025-03-31&cursor=0&fields=id%2Cname%2Crate''\<rparr>\<rparr>] \<and>
   map_of (searchParams
     \<lparr>target = ''https://api.example.com/api/v1/property/42/rate-calendar/assessment'',
      search = ''?start_date=2025-03-01&end_date=2025-03-31&cursor=0&fields=id%2Cname%2Crate''\<rparr>)
     ''cursor'' = Some ''0''"
proof -
  have req: "example_request ''0'' =
      \<lparr>http_method = ''GET'',
       url = \<lparr>target = ''https://api.example.com/api/v1/property/42/rate-calendar/assessment'',
              search = ''?start_date=2025-03-01&end_date=2025-03-31&cursor=0&fields=id%2Cname%2Crate''\<rparr>\<rparr>"
    by (simp add: example_request_def)
  have "snd (fetchAll (useRoomRateAvailabilityCalendar_options
          (example_runtime example_server :: unit runtime) example_params)
        \<lparr>pages = [], pageParams = []\<rparr> []) = [example_request ''0'']"
    by (simp add: first_fetch_of_hook fetchPage_of_hook example_fetchData example_server_def)
  moreover have "map_of (searchParams (url (page_request
      (example_runtime example_server :: unit runtime) example_params (Num 0)))) ''cursor'' = Some ''0''"
    by (simp add: searchParams_page_request query_params_def decimal.simps digit_char_def)
  ultimately show ?thesis
    unfolding example_request_0 req by simp
qed

text \<open>
  C3, amended: the hook's \<^verbatim>\<open>initialPageParam\<close> is \<^verbatim>\<open>0\<close>, and every request carries the
  query parameter \<^verbatim>\<open>cursor\<close>: it is \<^verbatim>\<open>0\<close> on the first request of a run (and whenever
  \<open>fetchData\<close> is called without a page parameter), and the previous page's truthy
  \<^verbatim>\<open>nextCursor\<close> on the requests that follow.
\<close>

theorem cursor_sent_on_every_request:
  "initialPageParam (useRoomRateAvailabilityCalendar_options rt params) = Num 0 \<and>
   number_toString (Num 0) = ''0'' \<and>
   map_of (searchParams (url (page_request rt params c))) ''cursor'' = Some (number_toString c) \<and>
   (has_scheme (endpoint rt params) \<and> URL_accepts rt (endpoint rt params) \<longrightarrow>
      snd (fetchData rt params pageParamArg log) =
        log @ [page_request rt params (case pageParamArg of None \<Rightarrow> Num 0 | Some p \<Rightarrow> p)] \<and>
      snd (fetchAll (useRoomRateAvailabilityCalendar_options rt params)
             \<lparr>pages = [], pageParams = []\<rparr> log) = log @ [page_request rt params (Num 0)] \<and>
      (pages d \<noteq> [] \<and> nextCursor (data (last (pages d))) = Some c \<and> truthy c \<longrightarrow>
         snd (fetchNextPage (useRoomRateAvailabilityCalendar_options rt params) d log) =
           log @ [page_request rt params c]))"
proof -
  have cur: "map_of (searchParams (url (page_request rt params c))) ''cursor'' = Some (number_toString c)"
    by (simp add: searchParams_page_request query_params_def)
  have zero: "number_toString (Num 0) = ''0''"
    by (simp add: decimal.simps digit_char_def)
  have init: "initialPageParam (useRoomRateAvailabilityCalendar_options rt params) = Num 0"
    by (simp add: useRoomRateAvailabilityCalendar_options_def)
  have run: "snd (fetchData rt params pageParamArg log) =
        log @ [page_request rt params (case pageParamArg of None \<Rightarrow> Num 0 | Some p \<Rightarrow> p)] \<and>
      snd (fetchAll (useRoomRateAvailabilityCalendar_options rt params)
             \<lparr>pages = [], pageParams = []\<rparr> log) = log @ [page_request rt params (Num 0)] \<and>
      (pages d \<noteq> [] \<and> nextCursor (data (last (pages d))) = Some c \<and> truthy c \<longrightarrow>
         snd (fetchNextPage (useRoomRateAvailabilityCalendar_options rt params) d log) =
           log @ [page_request rt params c])"
    if ok: "has_scheme (endpoint rt params) \<and> URL_accepts rt (endpoint rt params)"
    using ok
    by (auto simp add: fetchData_valid first_fetch_of_hook fetchPage_of_hook fetchNextPage_of_hook
          getNextPageParam_def split: sum.splits)
  show ?thesis
    using cur zero init run by blast
qed

theorem cursor_sent_on_every_request_witness:
  "map_of (searchParams (url (example_request ''11''))) ''cursor'' = Some ''11'' \<and>
   snd (fetchAll (useRoomRateAvailabilityCalendar_options
          (example_runtime example_server :: unit runtime) example_params)
        \<lparr>pages = [], pageParams = []\<rparr> []) = [example_request ''0''] \<and>
   snd (fetchNextPage (useRoomRateAvailabilityCalendar_options
          (example_runtime example_server :: unit runtime) example_params)
        \<lparr>pages = [example_page], pageParams = [Num 0]\<rparr> [example_request ''0'']) =
     [example_request ''0'', example_request ''11'']"
  using cursor_sent_on_every_request
    [of "example_runtime example_server :: unit runtime" example_params "Num 11" None
        "[]" "\<lparr>pages = [example_page], pageParams = [Num 0]\<rparr>"]
    cursor_sent_on_every_request
    [of "example_runtime example_server :: unit runtime" example_params "Num 11" None
        "[example_request ''0'']" "\<lparr>pages = [example_page], pageParams = [Num 0]\<rparr>"]
  by (simp add: example_has_scheme example_accepts example_request_0 example_request_11
        example_page_def decimal.simps digit_char_def)

subsection \<open>C4: the cache and its time to live\<close>




subsection \<open>C5: one GET request per page fetch\<close>

text \<open>
  C5 as stated: every page fetch issues exactly one \<^verbatim>\<open>GET\<close> request to
  \<^verbatim>\<open>{backend_url}/api/v1/property/{property_id}/rate-calendar/assessment\<close>. With
  \<^verbatim>\<open>NEXT_PUBLIC_BACKEND_URL\<close> unset the URL string does not parse: the fetch fails and the
  log of requests is as it was. With the backend URL \<^verbatim>\<open>https://api.example.com/v2?debug=1\<close>
  the string parses, but the endpoint path lies behind the \<^verbatim>\<open>?\<close>, in the query that
  \<^verbatim>\<open>url.search = ...\<close> replaces: the one request goes to \<^verbatim>\<open>https://api.example.com/v2\<close>.
\<close>

theorem fetch_with_no_request_or_other_address:
  "fetchData (unset_runtime example_server :: unit runtime) example_params (Some (Num 11))
     [example_request ''0''] =
     (Inl TypeError_Invalid_URL, [example_request ''0'']) \<and>
   fetchData (query_runtime example_server :: unit runtime) example_params None [] =
     (Inr example_page,
      [\<lparr>http_method = ''GET'',
        url = \<lparr>target = ''https://api.example.com/v2'',
               search = ''?start_date=2025-03-01&end_date=2025-03-31&cursor=0&fields=id%2Cname%2Crate''\<rparr>\<rparr>])"
  by (simp add: fetchData_invalid unset_has_no_scheme query_fetchData example_server_def)

text \<open>
  C5, amended: a page fetch whose URL string parses hands exactly one request to \<^verbatim>\<open>Fetch\<close>:
  method \<^verbatim>\<open>GET\<close>, and the URL that \<^verbatim>\<open>new URL\<close> makes of the string
  \<^verbatim>\<open>{backend_url}/api/v1/property/{property_id}/rate-calendar/assessment\<close>, with its query
  replaced. The address is the part of that string before its first \<^verbatim>\<open>?\<close> or \<^verbatim>\<open>#\<close>, as
  the parser serialises it; it is the whole string when the backend URL has no \<^verbatim>\<open>?\<close>, no
  \<^verbatim>\<open>#\<close>, and no space or control character. The query string carries exactly the parameters
  \<^verbatim>\<open>start_date\<close>, \<^verbatim>\<open>end_date\<close>, \<^verbatim>\<open>cursor\<close> and \<^verbatim>\<open>fields\<close>, built from the call's
  parameters. A page fetch whose URL string does not parse makes no request and fails with
  the \<^verbatim>\<open>TypeError\<close> of \<^verbatim>\<open>new URL\<close>.
\<close>

theorem fetchData_one_GET_or_none:
  "(has_scheme (endpoint rt params) \<and> URL_accepts rt (endpoint rt params) \<longrightarrow>
      snd (fetchData rt params pageParamArg log) =
        log @ [\<lparr>http_method = ''GET'',
                url = \<lparr>target = URL_serialize rt (url_base (url_input
                                (template (NEXT_PUBLIC_BACKEND_URL rt) @ ''/api/v1/property/'' @
                                 number_toString (property_id params) @
                                 ''/rate-calendar/assessment''))),
                       search = ''?'' @ URLSearchParams_toString
                         [(''start_date'', start_date params),
                          (''end_date'', end_date params),
                          (''cursor'', number_toString
                             (case pageParamArg of None \<Rightarrow> Num 0 | Some p \<Rightarrow> p)),
                          (''fields'', ''id,name,rate'')]\<rparr>\<rparr>] \<and>
      searchParams (url (last (snd (fetchData rt params pageParamArg log)))) =
        [(''start_date'', start_date params),
         (''end_date'', end_date params),
         (''cursor'', number_toString (case pageParamArg of None \<Rightarrow> Num 0 | Some p \<Rightarrow> p)),
         (''fields'', ''id,name,rate'')]) \<and>
   (\<not> (has_scheme (endpoint rt params) \<and> URL_accepts rt (endpoint rt params)) \<longrightarrow>
      fetchData rt params pageParamArg log = (Inl TypeError_Invalid_URL, log)) \<and>
   ((\<forall>c \<in> set (template (NEXT_PUBLIC_BACKEND_URL rt)).
       32 < (of_char c :: nat) \<and> c \<noteq> CHR ''?'' \<and> c \<noteq> CHR ''#'') \<longrightarrow>
      url_base (url_input
        (template (NEXT_PUBLIC_BACKEND_URL rt) @ ''/api/v1/property/'' @
         number_toString (property_id params) @ ''/rate-calendar/assessment'')) =
      template (NEXT_PUBLIC_BACKEND_URL rt) @ ''/api/v1/property/'' @
      number_toString (property_id params) @ ''/rate-calendar/assessment'')"
proof -
  let ?p = "case pageParamArg of None \<Rightarrow> Num 0 | Some p \<Rightarrow> p"
  have one: "snd (fetchData rt params pageParamArg log) = log @ [page_request rt params ?p] \<and>
      searchParams (url (last (snd (fetchData rt params pageParamArg log)))) =
        query_params params ?p"
    if "has_scheme (endpoint rt params) \<and> URL_accepts rt (endpoint rt params)"
    using that by (simp add: fetchData_valid searchParams_page_request)
  have none: "fetchData rt params pageParamArg log = (Inl TypeError_Invalid_URL, log)"
    if "\<not> (has_scheme (endpoint rt params) \<and> URL_accepts rt (endpoint rt params))"
    using that by (rule fetchData_invalid)
  have address: "url_base (url_input (endpoint rt params)) = endpoint rt params"
    if "\<forall>c \<in> set (template (NEXT_PUBLIC_BACKEND_URL rt)).
          32 < (of_char c :: nat) \<and> c \<noteq> CHR ''?'' \<and> c \<noteq> CHR ''#''"
    using that by (rule endpoint_is_base)
  show ?thesis
    using one none address
    unfolding page_request_def query_params_def endpoint_def
    by blast
qed

theorem fetchData_one_GET_or_none_witness:
  "has_scheme (endpoint (example_runtime example_server :: unit runtime) example_params) \<and>
   URL_accepts (example_runtime example_server :: unit runtime)
     (endpoint (example_runtime example_server :: unit runtime) example_params) \<and>
   snd (fetchData (example_runtime example_server :: unit runtime) example_params (Some (Num 11))
          [example_request ''0'']) =
     [example_request ''0'',
      \<lparr>http_method = ''GET'',
       url = \<lparr>target = ''https://api.example.com/api/v1/property/42/rate-calendar/assessment'',
              search = ''?start_date=2025-03-01&end_date=2025-03-31&cursor=11&fields=id%2Cname%2Crate''\<rparr>\<rparr>] \<and>
   searchParams (url (last (snd (fetchData (example_runtime example_server :: unit runtime)
       example_params (Some (Num 11)) [example_request ''0''])))) =
     [(''start_date'', ''2025-03-01''), (''end_date'', ''2025-03-31''), (''cursor'', ''11''),
      (''fields'', ''id,name,rate'')] \<and>
   \<not> has_scheme (endpoint (unset_runtime example_server :: unit runtime) example_params) \<and>
   fetchData (unset_runtime example_server :: unit runtime) example_params (Some (Num 11))
     [example_request ''0''] = (Inl TypeError_Invalid_URL, [example_request ''0'']) \<and>
   url_base (url_input ''https://api.example.com/api/v1/property/42/rate-calendar/assessment'') =
     ''https://api.example.com/api/v1/property/42/rate-calendar/assessment''"
proof -
  let ?rt = "example_runtime example_server :: unit runtime"
  let ?unset = "unset_runtime example_server :: unit runtime"
  have h: "has_scheme (endpoint ?rt example_params)"
    by (rule example_has_scheme)
  have a: "URL_accepts ?rt (endpoint ?rt example_params)"
    by (rule example_accepts)
  have n: "\<not> has_scheme (endpoint ?unset example_params)"
    by (rule unset_has_no_scheme)
  have plain: "\<forall>c \<in> set (template (NEXT_PUBLIC_BACKEND_URL ?rt)).
      32 < (of_char c :: nat) \<and> c \<noteq> CHR ''?'' \<and> c \<noteq> CHR ''#''"
    by (simp add: example_runtime_def template_def)
  have str: "template (NEXT_PUBLIC_BACKEND_URL ?rt) @ ''/api/v1/property/'' @
      number_toString (property_id example_params) @ ''/rate-calendar/assessment'' =
      ''https://api.example.com/api/v1/property/42/rate-calendar/assessment''"
    using example_endpoint [of example_server] by (simp add: endpoint_def)
  note parsed = fetchData_one_GET_or_none
    [of ?rt example_params "Some (Num 11)" "[example_request ''0'']"]
  note unparsed = fetchData_one_GET_or_none
    [of ?unset example_params "Some (Num 11)" "[example_request ''0'']"]
  note sent = parsed [THEN conjunct1, THEN mp, OF conjI [OF h a]]
  note addr = parsed [THEN conjunct2, THEN conjunct2, THEN mp, OF plain]
  have 4: "url_base (url_input ''https://api.example.com/api/v1/property/42/rate-calendar/assessment'') =
      ''https://api.example.com/api/v1/property/42/rate-calendar/assessment''"
    using addr unfolding str .
  have 1: "snd (fetchData ?rt example_params (Some (Num 11)) [example_request ''0'']) =
      [example_request ''0'',
       \<lparr>http_method = ''GET'',
        url = \<lparr>target = ''https://api.example.com/api/v1/property/42/rate-calendar/assessment'',
               search = ''?start_date=2025-03-01&end_date=2025-03-31&cursor=11&fields=id%2Cname%2Crate''\<rparr>\<rparr>]"
    using sent [THEN conjunct1] unfolding str 4
    by (simp add: example_params_def example_runtime_def decimal.simps digit_char_def urlencode_eval)
  have 2: "searchParams (url (last (snd (fetchData ?rt example_params (Some (Num 11))
        [example_request ''0''])))) =
      [(''start_date'', ''2025-03-01''), (''end_date'', ''2025-03-31''), (''cursor'', ''11''),
       (''fields'', ''id,name,rate'')]"
    using sent [THEN conjunct2]
    by (simp add: example_params_def decimal.simps digit_char_def)
  have 3: "fetchData ?unset example_params (Some (Num 11)) [example_request ''0''] =
      (Inl TypeError_Invalid_URL, [example_request ''0''])"
    using unparsed [THEN conjunct2, THEN conjunct1] n by simp
  from h a n 1 2 3 4 show ?thesis by blast
qed

subsection \<open>C6: responses are not validated\<close>

text \<open>
  C6 as stated: a response that breaks the invariants of the data model fails the fetch
  with \<^verbatim>\<open>ValidationError\<close> and is not merged. The page below lists the room category
  \<^verbatim>\<open>A\<close> twice; \<open>fetchData\<close> returns it as a success, and the first fetch of the hook makes
  it the first of the accumulated pages.
\<close>

theorem duplicate_ids_page_is_merged:
  "\<not> distinct (map category_id (room_categories (data duplicate_ids_page))) \<and>
   fetchData (example_runtime duplicate_ids_server :: fetch_error runtime) example_params None [] =
     (Inr duplicate_ids_page, [example_request ''0'']) \<and>
   fetchAll (useRoomRateAvailabilityCalendar_options
       (example_runtime duplicate_ids_server :: fetch_error runtime) example_params)
     \<lparr>pages = [], pageParams = []\<rparr> [] =
     (Inr \<lparr>pages = [duplicate_ids_page], pageParams = [Num 0]\<rparr>, [example_request ''0''])"
proof -
  have "\<not> distinct (map category_id (room_categories (data duplicate_ids_page)))"
    by (simp add: duplicate_ids_page_def)
  moreover have "fetchData (example_runtime duplicate_ids_server :: fetch_error runtime)
      example_params None [] = (Inr duplicate_ids_page, [example_request ''0''])"
    by (simp add: example_fetchData duplicate_ids_server_def)
  moreover have "fetchAll (useRoomRateAvailabilityCalendar_options
       (example_runtime duplicate_ids_server :: fetch_error runtime) example_params)
     \<lparr>pages = [], pageParams = []\<rparr> [] =
     (Inr \<lparr>pages = [duplicate_ids_page], pageParams = [Num 0]\<rparr>, [example_request ''0''])"
    by (simp add: first_fetch_of_hook fetchPage_of_hook example_fetchData duplicate_ids_server_def)
  ultimately show ?thesis by blast
qed

text \<open>
  C6, amended: \<open>fetchData\<close> examines no response. Whatever page \<^verbatim>\<open>Fetch\<close> resolves with,
  be its category ids unique or not and its dates inside the range or not, \<open>fetchData\<close>
  returns it unchanged as a success, and the query appends it to the accumulated pages: as
  the first page on the first fetch, after the pages already there on \<^verbatim>\<open>fetchNextPage\<close>.
  A success of \<open>fetchData\<close> is always the page \<^verbatim>\<open>Fetch\<close> resolved with.
\<close>

theorem responses_are_not_validated:
  assumes "has_scheme (endpoint rt params)" and "URL_accepts rt (endpoint rt params)"
  shows "(Fetch_outcome rt log
            (page_request rt params (case pageParamArg of None \<Rightarrow> Num 0 | Some p \<Rightarrow> p)) = Inr page \<longleftrightarrow>
          fetchData rt params pageParamArg log =
            (Inr page,
             log @ [page_request rt params (case pageParamArg of None \<Rightarrow> Num 0 | Some p \<Rightarrow> p)])) \<and>
         (Fetch_outcome rt log (page_request rt params (Num 0)) = Inr page \<longrightarrow>
            fetchAll (useRoomRateAvailabilityCalendar_options rt params)
              \<lparr>pages = [], pageParams = []\<rparr> log =
              (Inr \<lparr>pages = [page], pageParams = [Num 0]\<rparr>, log @ [page_request rt params (Num 0)])) \<and>
         (pages d \<noteq> [] \<and> nextCursor (data (last (pages d))) = Some c \<and> truthy c \<and>
          Fetch_outcome rt log (page_request rt params c) = Inr page \<longrightarrow>
            fetchNextPage (useRoomRateAvailabilityCalendar_options rt params) d log =
              (Inr \<lparr>pages = pages d @ [page], pageParams = pageParams d @ [c]\<rparr>,
               log @ [page_request rt params c]))"
  using assms
  by (auto simp add: fetchData_valid first_fetch_of_hook fetchPage_of_hook fetchNextPage_of_hook
        getNextPageParam_def split: sum.splits)

theorem responses_are_not_validated_witness:
  "fetchData (example_runtime duplicate_ids_server :: fetch_error runtime) example_params None [] =
     (Inr duplicate_ids_page, [example_request ''0'']) \<and>
   fetchAll (useRoomRateAvailabilityCalendar_options
       (example_runtime duplicate_ids_server :: fetch_error runtime) example_params)
     \<lparr>pages = [], pageParams = []\<rparr> [] =
     (Inr \<lparr>pages = [duplicate_ids_page], pageParams = [Num 0]\<rparr>, [example_request ''0'']) \<and>
   fetchNextPage (useRoomRateAvailabilityCalendar_options
       (example_runtime duplicate_ids_server :: fetch_error runtime) example_params)
     \<lparr>pages = [example_page], pageParams = [Num 0]\<rparr> [example_request ''0''] =
     (Inr \<lparr>pages = [example_page, duplicate_ids_page], pageParams = [Num 0, Num 11]\<rparr>,
      [example_request ''0'', example_request ''11''])"
proof -
  have h: "has_scheme (endpoint (example_runtime duplicate_ids_server :: fetch_error runtime) example_params)"
    by (rule example_has_scheme)
  have a: "URL_accepts (example_runtime duplicate_ids_server :: fetch_error runtime)
      (endpoint (example_runtime duplicate_ids_server :: fetch_error runtime) example_params)"
    by (rule example_accepts)
  from responses_are_not_validated
    [OF h a, of "[]" None duplicate_ids_page "\<lparr>pages = [example_page], pageParams = [Num 0]\<rparr>"
       "Num 11"]
    responses_are_not_validated
    [OF h a, of "[example_request ''0'']" None duplicate_ids_page
       "\<lparr>pages = [example_page], pageParams = [Num 0]\<rparr>" "Num 11"]
  show ?thesis
    by (simp add: example_outcome example_request_0 example_request_11 duplicate_ids_server_def
          example_page_def)
qed

subsection \<open>C7: how failures surface\<close>

text \<open>
  C7 as stated: every failing call surfaces as one of \<^verbatim>\<open>NetworkError\<close>, \<^verbatim>\<open>DecodeError\<close>,
  \<^verbatim>\<open>ValidationError\<close>. With \<^verbatim>\<open>NEXT_PUBLIC_BACKEND_URL\<close> unset the URL string is
  \<^verbatim>\<open>undefined/api/v1/property/42/rate-calendar/assessment\<close>, \<^verbatim>\<open>new URL\<close> throws, and the
  call fails with that \<^verbatim>\<open>TypeError\<close>, which is none of the three.
\<close>

theorem unset_backend_url_fails_with_TypeError:
  "fetchData (unset_runtime failing_server) example_params None [] =
     (Inl TypeError_Invalid_URL, []) \<and>
   TypeError_Invalid_URL \<noteq> Rejected NetworkError \<and>
   TypeError_Invalid_URL \<noteq> Rejected DecodeError \<and>
   TypeError_Invalid_URL \<noteq> Rejected ValidationError"
  by (simp add: fetchData_invalid unset_has_no_scheme)

text \<open>
  C7, amended: \<open>fetchData\<close> swallows no error and retries nothing. A rejection of
  \<^verbatim>\<open>Fetch\<close> surfaces to the caller unchanged, after the one request made; a URL that does
  not parse surfaces as the \<^verbatim>\<open>TypeError\<close> of \<^verbatim>\<open>new URL\<close>, with no request made. A failure
  of \<open>fetchData\<close> is one of these two, and a call hands at most one request to \<^verbatim>\<open>Fetch\<close>.
  \<open>fetchData\<close> does not sort failures into kinds.
\<close>

theorem fetchData_passes_failures_on:
  "(has_scheme (endpoint rt params) \<and> URL_accepts rt (endpoint rt params) \<and>
    Fetch_outcome rt log
      (page_request rt params (case pageParamArg of None \<Rightarrow> Num 0 | Some p \<Rightarrow> p)) = Inl err \<longrightarrow>
      fetchData rt params pageParamArg log =
        (Inl (Rejected err),
         log @ [page_request rt params (case pageParamArg of None \<Rightarrow> Num 0 | Some p \<Rightarrow> p)])) \<and>
   (\<not> (has_scheme (endpoint rt params) \<and> URL_accepts rt (endpoint rt params)) \<longrightarrow>
      fetchData rt params pageParamArg log = (Inl TypeError_Invalid_URL, log)) \<and>
   (fst (fetchData rt params pageParamArg log) = Inl failure \<longrightarrow>
      failure = TypeError_Invalid_URL \<and> snd (fetchData rt params pageParamArg log) = log \<or>
      (\<exists>e. failure = Rejected e \<and>
           Fetch_outcome rt log
             (page_request rt params (case pageParamArg of None \<Rightarrow> Num 0 | Some p \<Rightarrow> p)) = Inl e)) \<and>
   length (snd (fetchData rt params pageParamArg log)) \<le> Suc (length log)"
proof (cases "has_scheme (endpoint rt params) \<and> URL_accepts rt (endpoint rt params)")
  case True
  then show ?thesis
    by (auto simp add: fetchData_valid split: sum.splits)
next
  case False
  then have "fetchData rt params pageParamArg log = (Inl TypeError_Invalid_URL, log)"
    by (rule fetchData_invalid)
  with False show ?thesis by auto
qed

theorem fetchData_passes_failures_on_witness:
  "fetchData (example_runtime failing_server) example_params None [] =
     (Inl (Rejected NetworkError), [example_request ''0'']) \<and>
   length (snd (fetchData (example_runtime failing_server) example_params None [])) \<le> Suc 0"
  using fetchData_passes_failures_on
    [of "example_runtime failing_server" example_params "[]" None NetworkError]
  by (simp add: example_has_scheme example_accepts example_outcome example_request_0
        failing_server_def)

subsection \<open>C9: a falsy cursor ends the pagination\<close>

text \<open>
  C9: when the last page's \<^verbatim>\<open>nextCursor\<close> is present but falsy (the falsy numbers are \<^verbatim>\<open>0\<close>
  and \<^verbatim>\<open>NaN\<close>), \<open>getNextPageParam\<close> returns \<^verbatim>\<open>undefined\<close>, there is no next page and
  \<^verbatim>\<open>fetchNextPage\<close> makes no request, although the server supplied a cursor; there is a next
  page only when the last page's \<^verbatim>\<open>nextCursor\<close> is truthy.
\<close>

theorem falsy_cursor_ends_pagination:
  "(nextCursor (data lastpage) = Some c \<and> \<not> truthy c \<longrightarrow>
      getNextPageParam lastpage = None \<and>
      \<not> hasNextPage (useRoomRateAvailabilityCalendar_options rt params)
          (Some \<lparr>pages = ps @ [lastpage], pageParams = pps\<rparr>) \<and>
      fetchNextPage (useRoomRateAvailabilityCalendar_options rt params)
        \<lparr>pages = ps @ [lastpage], pageParams = pps\<rparr> log =
        (Inr \<lparr>pages = ps @ [lastpage], pageParams = pps\<rparr>, log)) \<and>
   (\<not> truthy c \<longleftrightarrow> c = Num 0 \<or> c = NaN) \<and>
   (hasNextPage (useRoomRateAvailabilityCalendar_options rt params) (Some d) \<longrightarrow>
      (\<exists>c'. nextCursor (data (last (pages d))) = Some c' \<and> truthy c'))"
proof -
  let ?opts = "useRoomRateAvailabilityCalendar_options rt params"
  let ?d = "\<lparr>pages = ps @ [lastpage], pageParams = pps\<rparr>"
  have stop: "nextCursor (data lastpage) = Some c \<and> \<not> truthy c \<longrightarrow>
      getNextPageParam lastpage = None \<and> \<not> hasNextPage ?opts (Some ?d) \<and>
      fetchNextPage ?opts ?d log = (Inr ?d, log)"
    by (simp add: getNextPageParam_def hasNextPage_def nextPageParam_of_hook
          fetchNextPage_of_hook)
  have only: "hasNextPage ?opts (Some d) \<longrightarrow>
      (\<exists>c'. nextCursor (data (last (pages d))) = Some c' \<and> truthy c')"
    by (auto simp add: hasNextPage_def nextPageParam_of_hook getNextPageParam_def
          split: option.splits if_splits)
  show ?thesis
    using stop only falsy_iff [of c] by blast
qed

theorem falsy_cursor_ends_pagination_witness:
  "getNextPageParam zero_cursor_page = None \<and>
   \<not> hasNextPage (useRoomRateAvailabilityCalendar_options (example_runtime example_server :: unit runtime) example_params)
       (Some \<lparr>pages = [example_page, zero_cursor_page],
              pageParams = [Num 0, Num 11]\<rparr>) \<and>
   fetchNextPage (useRoomRateAvailabilityCalendar_options (example_runtime example_server :: unit runtime) example_params)
     \<lparr>pages = [example_page, zero_cursor_page],
      pageParams = [Num 0, Num 11]\<rparr> [example_request ''0'', example_request ''11''] =
     (Inr \<lparr>pages = [example_page, zero_cursor_page],
            pageParams = [Num 0, Num 11]\<rparr>,
      [example_request ''0'', example_request ''11''])"
  using falsy_cursor_ends_pagination
    [of "zero_cursor_page" "Num 0"
        "example_runtime example_server :: unit runtime" example_params "[example_page]" "[Num 0, Num 11]"
        "[example_request ''0'', example_request ''11'']"]
  by (simp add: zero_cursor_page_def)

subsection \<open>C10: the fields parameter is fixed\<close>

text \<open>
  C10: whatever the runtime, the hook's parameters and the page parameter, a call of
  \<open>fetchData\<close> whose URL parses makes one request, and that request carries the query
  parameter \<^verbatim>\<open>fields\<close> with the value \<^verbatim>\<open>id,name,rate\<close> (on the wire
  \<^verbatim>\<open>fields=id%2Cname%2Crate\<close>, the last parameter); no argument of the hook changes it. A
  call whose URL does not parse makes no request.
\<close>

theorem fields_parameter_is_fixed:
  "(has_scheme (endpoint rt params) \<and> URL_accepts rt (endpoint rt params) \<longrightarrow>
      snd (fetchData rt params pageParamArg log) =
        log @ [last (snd (fetchData rt params pageParamArg log))] \<and>
      map_of (searchParams (url (last (snd (fetchData rt params pageParamArg log)))))
        ''fields'' = Some ''id,name,rate'' \<and>
      search (url (last (snd (fetchData rt params pageParamArg log)))) =
        ''?start_date='' @ urlencode (start_date params) @
        ''&end_date='' @ urlencode (end_date params) @
        ''&cursor='' @ urlencode (number_toString
           (case pageParamArg of None \<Rightarrow> Num 0 | Some p \<Rightarrow> p)) @
        ''&fields=id%2Cname%2Crate'') \<and>
   (\<not> (has_scheme (endpoint rt params) \<and> URL_accepts rt (endpoint rt params)) \<longrightarrow>
      snd (fetchData rt params pageParamArg log) = log)"
proof -
  let ?p = "case pageParamArg of None \<Rightarrow> Num 0 | Some p \<Rightarrow> p"
  have fields: "map_of (searchParams (url (page_request rt params ?p))) ''fields'' = Some ''id,name,rate''"
    by (simp add: searchParams_page_request query_params_def)
  have wire: "search (url (page_request rt params ?p)) =
      ''?start_date='' @ urlencode (start_date params) @ ''&end_date='' @ urlencode (end_date params) @
      ''&cursor='' @ urlencode (number_toString ?p) @ ''&fields=id%2Cname%2Crate''"
    by (simp add: page_request_def search_string_shape)
  show ?thesis
  proof (cases "has_scheme (endpoint rt params) \<and> URL_accepts rt (endpoint rt params)")
    case True
    then have "snd (fetchData rt params pageParamArg log) = log @ [page_request rt params ?p]"
      by (simp add: fetchData_valid)
    with True fields wire show ?thesis by simp
  next
    case False
    then have "fetchData rt params pageParamArg log = (Inl TypeError_Invalid_URL, log)"
      by (rule fetchData_invalid)
    with False show ?thesis by simp
  qed
qed

theorem fields_parameter_is_fixed_witness:
  "has_scheme (endpoint (example_runtime example_server :: unit runtime) example_params) \<and>
   URL_accepts (example_runtime example_server :: unit runtime)
     (endpoint (example_runtime example_server :: unit runtime) example_params) \<and>
   snd (fetchData (example_runtime example_server :: unit runtime) example_params None []) =
     [last (snd (fetchData (example_runtime example_server :: unit runtime) example_params None []))] \<and>
   map_of (searchParams (url (last (snd (fetchData (example_runtime example_server :: unit runtime)
       example_params None []))))) ''fields'' = Some ''id,name,rate'' \<and>
   search (url (last (snd (fetchData (example_runtime example_server :: unit runtime)
       example_params None [])))) =
     ''?start_date=2025-03-01&end_date=2025-03-31&cursor=0&fields=id%2Cname%2Crate'' \<and>
   snd (fetchData (unset_runtime example_server :: unit runtime) example_params None []) = []"
proof -
  let ?rt = "example_runtime example_server :: unit runtime"
  let ?unset = "unset_runtime example_server :: unit runtime"
  have h: "has_scheme (endpoint ?rt example_params)"
    by (rule example_has_scheme)
  have a: "URL_accepts ?rt (endpoint ?rt example_params)"
    by (rule example_accepts)
  have n: "\<not> has_scheme (endpoint ?unset example_params)"
    by (rule unset_has_no_scheme)
  note sent = fields_parameter_is_fixed [of ?rt example_params None "[]", THEN conjunct1]
  note unsent = fields_parameter_is_fixed [of ?unset example_params None "[]", THEN conjunct2]
  from sent h a have 1: "snd (fetchData ?rt example_params None []) =
      [last (snd (fetchData ?rt example_params None []))]"
    and 2: "map_of (searchParams (url (last (snd (fetchData ?rt example_params None [])))))
      ''fields'' = Some ''id,name,rate''"
    by simp_all
  from sent h a have 3: "search (url (last (snd (fetchData ?rt example_params None [])))) =
      ''?start_date=2025-03-01&end_date=2025-03-31&cursor=0&fields=id%2Cname%2Crate''"
    by (simp add: example_params_def decimal.simps digit_char_def urlencode_eval)
  from unsent n have 4: "snd (fetchData ?unset example_params None []) = []"
    by simp
  from h a 1 2 3 4 show ?thesis by blast
qed

end
